theory Spec2Isabelle
  imports Main "HOL-Library.Word" "HOL-Library.Sublist"
begin

unbundle bit_operations_syntax

section \<open>NETCONF delete-config: the handler of src/server/op_deleteconfig.c\<close>

text \<open>
  The handler \<open>op_deleteconfig\<close> is one C function. It talks to three collaborators that
  are not part of the file: libnetconf2 (replies and errors), libyang (the request and the
  schema context) and the sysrepo wrappers \<open>np2srv_sr_*\<close> together with \<open>op_url_*\<close>.
  The embedding keeps the control flow of the C function and makes every call to a
  collaborator visible: each call is appended to a log together with its result, and the
  result itself is read from an environment that may answer differently depending on the
  calls made so far.
\<close>

subsection \<open>libnetconf2: errors and replies\<close>

datatype NC_ERR =
    NC_ERR_UNKNOWN | NC_ERR_IN_USE | NC_ERR_INVALID_VALUE | NC_ERR_TOO_BIG
  | NC_ERR_MISSING_ATTR | NC_ERR_BAD_ATTR | NC_ERR_UNKNOWN_ATTR | NC_ERR_MISSING_ELEM
  | NC_ERR_BAD_ELEM | NC_ERR_UNKNOWN_ELEM | NC_ERR_UNKNOWN_NS | NC_ERR_ACCESS_DENIED
  | NC_ERR_LOCK_DENIED | NC_ERR_RES_DENIED | NC_ERR_ROLLBACK_FAILED | NC_ERR_DATA_EXISTS
  | NC_ERR_DATA_MISSING | NC_ERR_OP_NOT_SUPPORTED | NC_ERR_OP_FAILED | NC_ERR_MALFORMED_MSG

datatype NC_ERR_TYPE =
    NC_ERR_TYPE_UNKNOWN | NC_ERR_TYPE_TRAN | NC_ERR_TYPE_RPC | NC_ERR_TYPE_PROT
  | NC_ERR_TYPE_APP

record nc_server_error =
  err_tag :: NC_ERR
  err_type :: NC_ERR_TYPE
  err_message :: "string option"
  err_message_lang :: "string option"

text \<open>\<open>nc_err(tag, type)\<close>: a fresh error without a message.\<close>

definition nc_err :: "NC_ERR \<Rightarrow> NC_ERR_TYPE \<Rightarrow> nc_server_error" where
  "nc_err tag ty =
     \<lparr>err_tag = tag, err_type = ty, err_message = None, err_message_lang = None\<rparr>"

text \<open>\<open>nc_err_set_msg(e, msg, lang)\<close>.\<close>

definition nc_err_set_msg :: "nc_server_error \<Rightarrow> string \<Rightarrow> string \<Rightarrow> nc_server_error" where
  "nc_err_set_msg e msg lang = e\<lparr>err_message := Some msg, err_message_lang := Some lang\<rparr>"

text \<open>
  A reply is the acknowledgement or a list of errors. The handler returns a pointer to a
  reply: \<open>None\<close> is the C value \<open>NULL\<close>.
\<close>

datatype nc_server_reply = NC_RPL_OK | NC_RPL_ERROR "nc_server_error list"

definition nc_server_reply_ok :: nc_server_reply where
  "nc_server_reply_ok = NC_RPL_OK"

definition nc_server_reply_err :: "nc_server_error \<Rightarrow> nc_server_reply" where
  "nc_server_reply_err e = NC_RPL_ERROR [e]"

text \<open>
  \<open>nc_server_reply_add_err(reply, err)\<close> appends \<open>err\<close> to an error reply. On \<open>NULL\<close>
  or on a reply that is not an error reply it only reports a wrong argument; the handler
  ignores the return value, so the reply stays what it was.
\<close>

fun nc_server_reply_add_err ::
  "nc_server_reply option \<Rightarrow> nc_server_error \<Rightarrow> nc_server_reply option" where
  "nc_server_reply_add_err None e = None"
| "nc_server_reply_add_err (Some (NC_RPL_ERROR es)) e = Some (NC_RPL_ERROR (es @ [e]))"
| "nc_server_reply_add_err (Some NC_RPL_OK) e = Some NC_RPL_OK"

subsection \<open>sysrepo and libyang data\<close>

text \<open>
  \<open>sr_datastore_t\<close> is a C enumeration; the handler initialises a variable of this type
  with the literal \<open>0\<close>, so the numbers matter. The values are those of sysrepo.h.
\<close>

type_synonym sr_datastore_t = "32 word"

definition SR_DS_STARTUP :: sr_datastore_t where "SR_DS_STARTUP = 0"
definition SR_DS_RUNNING :: sr_datastore_t where "SR_DS_RUNNING = 1"
definition SR_DS_CANDIDATE :: sr_datastore_t where "SR_DS_CANDIDATE = 2"

text \<open>
  A schema node as far as the handler reads it: \<open>nodetype\<close> (the enumeration \<open>LYS_NODE\<close>,
  one bit per kind) and \<open>flags\<close> (\<open>uint16_t\<close>). The constants are those of libyang's
  tree_schema.h. A module is its name and the list of its top-level schema nodes, the
  siblings that \<open>LY_TREE_FOR(mod->data, iter)\<close> walks.
\<close>

record lys_node =
  nodetype :: "32 word"
  flags :: "16 word"

record lys_module =
  name :: string
  data :: "lys_node list"

definition LYS_CONTAINER :: "32 word" where "LYS_CONTAINER = 0x0001"
definition LYS_CHOICE :: "32 word" where "LYS_CHOICE = 0x0002"
definition LYS_LEAF :: "32 word" where "LYS_LEAF = 0x0004"
definition LYS_LEAFLIST :: "32 word" where "LYS_LEAFLIST = 0x0008"
definition LYS_LIST :: "32 word" where "LYS_LIST = 0x0010"
definition LYS_ANYXML :: "32 word" where "LYS_ANYXML = 0x0020"
definition LYS_NOTIF :: "32 word" where "LYS_NOTIF = 0x0080"
definition LYS_RPC :: "32 word" where "LYS_RPC = 0x0100"
definition LYS_CONFIG_W :: "16 word" where "LYS_CONFIG_W = 0x01"
definition LYS_CONFIG_R :: "16 word" where "LYS_CONFIG_R = 0x02"

text \<open>
  The request as far as the handler reads it: the one child of the \<open>target\<close> container,
  with the name of its schema node and, for a leaf, its value string (\<open>None\<close> is a
  \<open>NULL\<close> pointer). The handler dereferences \<open>nodeset->set.d[0]\<close> without a check; a
  request that was validated against the NETCONF schema has this child.
\<close>

record request =
  dsname :: string
  value_str :: "string option"

subsection \<open>Calls, results and the environment\<close>

text \<open>
  The helpers return an \<open>int\<close> (zero on success) and, on failure, leave an error reply in
  \<open>*ereply\<close>. \<open>RC_OK\<close> is the return value zero; \<open>RC_ERR e es\<close> is a non-zero return
  value with the error reply \<open>e # es\<close> left behind.
\<close>

datatype rc = RC_OK | RC_ERR nc_server_error "nc_server_error list"

fun ereply_of :: "rc \<Rightarrow> nc_server_reply option" where
  "ereply_of RC_OK = None"
| "ereply_of (RC_ERR e es) = Some (NC_RPL_ERROR (e # es))"

text \<open>A parsed configuration document: (module name, serialized top-level node) pairs.\<close>

type_synonym lyd_doc = "(string \<times> string) list"

datatype call =
    Sr_check_exec_permission string
  | Lyd_find_path string
  | Op_url_import string
  | Lyd_free_withsiblings lyd_doc
  | Op_url_init string
  | Sr_session_switch_ds sr_datastore_t
  | Sr_session_refresh
  | Sr_delete_item string
  | Sr_discard_changes
  | Sr_commit

type_synonym event = "call \<times> rc"

text \<open>
  The environment answers every fallible call. Each answer may depend on the log of the
  calls made before it, so the same delete path may succeed once and fail later.
\<close>

record env =
  env_exec_permission :: "event list \<Rightarrow> string \<Rightarrow> (NC_ERR_TYPE \<times> string option) option"
  env_url_import :: "event list \<Rightarrow> string \<Rightarrow> rc \<times> lyd_doc"
  env_url_init :: "event list \<Rightarrow> string \<Rightarrow> rc"
  env_switch_ds :: "event list \<Rightarrow> sr_datastore_t \<Rightarrow> rc"
  env_refresh :: "event list \<Rightarrow> rc"
  env_delete_item :: "event list \<Rightarrow> string \<Rightarrow> rc"
  env_commit :: "event list \<Rightarrow> rc"

text \<open>
  The state the handler works on: \<open>ds\<close> is the field \<open>sessions->ds\<close>; \<open>trace\<close> is the log
  of calls; the three \<open>sr_\<close> fields are the datastore engine behind \<open>sessions->srs\<close>: the
  datastore the connection is bound to, the committed content of every datastore as
  (module name, node) pairs, and the paths of the deletions requested but not committed.
\<close>

record state =
  ds :: sr_datastore_t
  trace :: "event list"
  sr_ds :: sr_datastore_t
  sr_content :: "sr_datastore_t \<Rightarrow> (string \<times> string) list"
  sr_pending :: "string list"

definition log_call :: "call \<Rightarrow> rc \<Rightarrow> state \<Rightarrow> state" where
  "log_call c r s = s\<lparr>trace := trace s @ [(c, r)]\<rparr>"

subsection \<open>The helpers called by the handler\<close>

text \<open>
  Modelled from the spec: \<open>np2srv_sr_check_exec_permission\<close> is not in the source file.
  The spec describes the permission checker as
  \<open>(connection, operationIdentifier) -> Error | None\<close> and says that a caller without
  execute permission gets an Access-Denied error. The environment answers \<open>None\<close> when
  the caller is permitted and otherwise gives the type and message of the error.
\<close>

definition np2srv_sr_check_exec_permission :: "env \<Rightarrow> string \<Rightarrow> state \<Rightarrow> rc \<times> state" where
  "np2srv_sr_check_exec_permission en xpath s =
     (let r = (case env_exec_permission en (trace s) xpath of
                 None \<Rightarrow> RC_OK
               | Some (ty, msg) \<Rightarrow>
                   RC_ERR ((nc_err NC_ERR_ACCESS_DENIED ty)\<lparr>err_message := msg\<rparr>) [])
      in (r, log_call (Sr_check_exec_permission xpath) r s))"

text \<open>\<open>lyd_find_path(rpc, path)\<close> only reads the request.\<close>

definition lyd_find_path :: "string \<Rightarrow> state \<Rightarrow> state" where
  "lyd_find_path path s = log_call (Lyd_find_path path) RC_OK s"

text \<open>
  Modelled from the spec: \<open>op_url_import\<close> is not in the source file. The spec describes
  it as \<open>fetchAndParseStrict(location) -> Document | Error\<close>: on success it hands back the
  parsed document, on failure it leaves an error. It does not touch the datastore engine.
  The handler passes the options \<open>LYD_OPT_CONFIG | LYD_OPT_STRICT\<close>, which the log does
  not record.
\<close>

definition op_url_import :: "env \<Rightarrow> string \<Rightarrow> state \<Rightarrow> (rc \<times> lyd_doc) \<times> state" where
  "op_url_import en url s =
     (let r = env_url_import en (trace s) url
      in (r, log_call (Op_url_import url) (fst r) s))"

text \<open>\<open>lyd_free_withsiblings(urlcfg)\<close> releases the parsed document.\<close>

definition lyd_free_withsiblings :: "lyd_doc \<Rightarrow> state \<Rightarrow> state" where
  "lyd_free_withsiblings doc s = log_call (Lyd_free_withsiblings doc) RC_OK s"

text \<open>
  Modelled from the spec: \<open>op_url_init\<close> is not in the source file. The spec describes it
  as \<open>reinitialize(location) -> Error | None\<close>. It does not touch the datastore engine.
\<close>

definition op_url_init :: "env \<Rightarrow> string \<Rightarrow> state \<Rightarrow> rc \<times> state" where
  "op_url_init en url s =
     (let r = env_url_init en (trace s) url
      in (r, log_call (Op_url_init url) r s))"

text \<open>
  The wrappers of the store connection are not in the source file either. The spec gives
  the store connection client as \<open>switchStore(target) -> Error|None\<close>,
  \<open>refresh() -> Error|None\<close>, \<open>deleteDomain(domainName) -> Error|None\<close>,
  \<open>commit() -> Error|None\<close> and \<open>discardChanges() -> None\<close>, and the commit as a single
  atomic transaction. A failed call changes nothing in the engine.
\<close>

text \<open>
  Modelled from the spec: \<open>np2srv_sr_session_switch_ds\<close> is not in the source file. It is
  \<open>switchStore(target) -> Error|None\<close>: a successful switch rebinds the connection.
\<close>

definition np2srv_sr_session_switch_ds ::
  "env \<Rightarrow> sr_datastore_t \<Rightarrow> state \<Rightarrow> rc \<times> state" where
  "np2srv_sr_session_switch_ds en target s =
     (let r = env_switch_ds en (trace s) target;
          s1 = log_call (Sr_session_switch_ds target) r s
      in (r, if r = RC_OK then s1\<lparr>sr_ds := target\<rparr> else s1))"

text \<open>
  Modelled from the spec: \<open>np2srv_sr_session_refresh\<close> is not in the source file. It is
  \<open>refresh() -> Error|None\<close>; it changes neither the committed content nor the pending
  changes.
\<close>

definition np2srv_sr_session_refresh :: "env \<Rightarrow> state \<Rightarrow> rc \<times> state" where
  "np2srv_sr_session_refresh en s =
     (let r = env_refresh en (trace s)
      in (r, log_call Sr_session_refresh r s))"

text \<open>
  Modelled from the spec: \<open>np2srv_sr_delete_item\<close> is not in the source file. It is
  \<open>deleteDomain(domainName) -> Error|None\<close>: a successful delete is recorded as pending
  and changes no committed content.
\<close>

definition np2srv_sr_delete_item :: "env \<Rightarrow> string \<Rightarrow> state \<Rightarrow> rc \<times> state" where
  "np2srv_sr_delete_item en path s =
     (let r = env_delete_item en (trace s) path;
          s1 = log_call (Sr_delete_item path) r s
      in (r, if r = RC_OK then s1\<lparr>sr_pending := sr_pending s1 @ [path]\<rparr> else s1))"

text \<open>
  Modelled from the spec: \<open>np2srv_sr_discard_changes\<close> is not in the source file. It is
  \<open>discardChanges() -> None\<close>: it empties the pending changes. The handler passes \<open>NULL\<close>
  for the reply and ignores the return value.
\<close>

definition np2srv_sr_discard_changes :: "state \<Rightarrow> state" where
  "np2srv_sr_discard_changes s = (log_call Sr_discard_changes RC_OK s)\<lparr>sr_pending := []\<rparr>"

text \<open>
  Modelled from the spec: the effect of a committed deletion is the engine's. A deletion
  of \<open>/<module>:*\<close> removes the top-level nodes of that module and nothing else.
\<close>

definition sr_apply_delete :: "string \<Rightarrow> (string \<times> string) list \<Rightarrow> (string \<times> string) list" where
  "sr_apply_delete path items = filter (\<lambda>item. path \<noteq> ''/'' @ fst item @ '':*'') items"

text \<open>
  Modelled from the spec: \<open>np2srv_sr_commit\<close> is not in the source file. It is
  \<open>commit() -> Error|None\<close>, one atomic transaction: a successful commit applies the
  pending deletions to the datastore the connection is bound to and empties the pending
  list; a failed commit leaves the content as it was.
\<close>

definition np2srv_sr_commit :: "env \<Rightarrow> state \<Rightarrow> rc \<times> state" where
  "np2srv_sr_commit en s =
     (let r = env_commit en (trace s);
          s1 = log_call Sr_commit r s
      in (r, if r = RC_OK
             then s1\<lparr>sr_content := (sr_content s1)
                        (sr_ds s1 := fold sr_apply_delete (sr_pending s1) (sr_content s1 (sr_ds s1))),
                     sr_pending := []\<rparr>
             else s1))"

subsection \<open>The handler\<close>

text \<open>
  Lines 53 to 76: the target. The variable \<open>target\<close> starts as \<open>0\<close>; \<open>target_url\<close>
  exists only when the URL capability is compiled in (\<open>url_cap\<close>) and starts as \<open>NULL\<close>.
  The test on the value string is a test of the pointer, not of the string's length. The
  copy made with \<open>malloc\<close> is taken to succeed; releasing the node set and, at
  \<open>finish\<close>, the copy of the location changes nothing that is observed here.
\<close>

definition resolve_target ::
  "bool \<Rightarrow> request \<Rightarrow> nc_server_error + (sr_datastore_t \<times> string option)" where
  "resolve_target url_cap rpc =
     (if dsname rpc = ''startup'' then Inr (SR_DS_STARTUP, None)
      else if dsname rpc = ''url'' then
        (if url_cap then
           (case value_str rpc of
              Some urlval \<Rightarrow> Inr (0, Some urlval)
            | None \<Rightarrow>
                Inl (nc_err_set_msg (nc_err NC_ERR_OP_FAILED NC_ERR_TYPE_APP)
                       ''Missing target url'' ''en''))
         else Inl (nc_err_set_msg (nc_err NC_ERR_OP_FAILED NC_ERR_TYPE_APP)
                     ''<url> source not supported'' ''en''))
      else Inr (0, None))"

text \<open>Lines 81 to 100: the delete on the URL.\<close>

definition delete_url :: "env \<Rightarrow> string \<Rightarrow> state \<Rightarrow> nc_server_reply option \<times> state" where
  "delete_url en target_url s =
     (case op_url_import en target_url s of ((r1, urlcfg), s1) \<Rightarrow>
        if r1 \<noteq> RC_OK then
          (nc_server_reply_add_err (ereply_of r1)
             (nc_err_set_msg (nc_err NC_ERR_OP_FAILED NC_ERR_TYPE_APP)
                ''File at url does not appear to contain a valid config'' ''en''), s1)
        else
          (case op_url_init en target_url (lyd_free_withsiblings urlcfg s1) of (r2, s2) \<Rightarrow>
             if r2 \<noteq> RC_OK then (ereply_of r2, s2)
             else (Some nc_server_reply_ok, s2)))"

text \<open>
  Line 128: \<open>snprintf(path, 1024, "/%s:*", mod->name)\<close> writes at most 1023 characters.
\<close>

definition snprintf_path :: "string \<Rightarrow> string" where
  "snprintf_path nm = take 1023 (''/'' @ nm @ '':*'')"

text \<open>Lines 122 and 123: the test that makes the inner loop \<open>continue\<close>.\<close>

definition skip_node :: "lys_node \<Rightarrow> bool" where
  "skip_node iter =
     (nodetype iter AND (LYS_CONTAINER OR LYS_LIST OR LYS_LEAFLIST OR LYS_LEAF OR LYS_ANYXML) = 0
      \<or> flags iter AND LYS_CONFIG_R \<noteq> 0)"

text \<open>
  Lines 121 to 137: the inner loop over the top-level nodes of one module. A node that is
  skipped continues the loop; the first other node issues the delete and then either
  leaves the handler (failure, after discarding the changes) or breaks out of the loop.
\<close>

fun tree_for :: "env \<Rightarrow> string \<Rightarrow> lys_node list \<Rightarrow> state \<Rightarrow> rc \<times> state" where
  "tree_for en nm [] s = (RC_OK, s)"
| "tree_for en nm (iter # rest) s =
     (if skip_node iter then tree_for en nm rest s
      else
        (case np2srv_sr_delete_item en (snprintf_path nm) s of (r, s1) \<Rightarrow>
           if r \<noteq> RC_OK then (r, np2srv_sr_discard_changes s1)
           else (RC_OK, s1)))"

text \<open>Lines 119 to 138: the outer loop over the modules of the context.\<close>

fun module_iter :: "env \<Rightarrow> lys_module list \<Rightarrow> state \<Rightarrow> rc \<times> state" where
  "module_iter en [] s = (RC_OK, s)"
| "module_iter en (m # mods) s =
     (case tree_for en (name m) (data m) s of (r, s1) \<Rightarrow>
        if r \<noteq> RC_OK then (r, s1) else module_iter en mods s1)"

text \<open>Lines 103 to 146: switch, refresh, delete, commit.\<close>

definition delete_datastore ::
  "env \<Rightarrow> lys_module list \<Rightarrow> sr_datastore_t \<Rightarrow> state \<Rightarrow> nc_server_reply option \<times> state" where
  "delete_datastore en ly_ctx target s =
     (case (if ds s \<noteq> target
            then (case np2srv_sr_session_switch_ds en target s of (r, s') \<Rightarrow>
                    if r \<noteq> RC_OK then (r, s') else (RC_OK, s'\<lparr>ds := target\<rparr>))
            else (RC_OK, s)) of (r1, s1) \<Rightarrow>
      if r1 \<noteq> RC_OK then (ereply_of r1, s1) else
      (case np2srv_sr_session_refresh en s1 of (r2, s2) \<Rightarrow>
      if r2 \<noteq> RC_OK then (ereply_of r2, s2) else
      (case module_iter en ly_ctx s2 of (r3, s3) \<Rightarrow>
      if r3 \<noteq> RC_OK then (ereply_of r3, s3) else
      (case np2srv_sr_commit en s3 of (r4, s4) \<Rightarrow>
      if r4 \<noteq> RC_OK then (ereply_of r4, np2srv_sr_discard_changes s4)
      else (Some nc_server_reply_ok, s4)))))"

text \<open>
  The whole handler. \<open>url_cap\<close> is the build option \<open>NP2SRV_ENABLED_URL_CAPABILITY\<close>,
  \<open>ly_ctx\<close> the modules that \<open>ly_ctx_get_module_iter(np2srv.ly_ctx, &index)\<close> yields.
  The result is the returned reply pointer and the state left behind.
\<close>

definition op_deleteconfig ::
  "bool \<Rightarrow> env \<Rightarrow> lys_module list \<Rightarrow> request \<Rightarrow> state \<Rightarrow> nc_server_reply option \<times> state" where
  "op_deleteconfig url_cap en ly_ctx rpc s =
     (case np2srv_sr_check_exec_permission en ''/ietf-netconf:delete-config'' s of (r, s1) \<Rightarrow>
        if r \<noteq> RC_OK then (ereply_of r, s1) else
        (let s2 = lyd_find_path ''/ietf-netconf:delete-config/target/*'' s1 in
         case resolve_target url_cap rpc of
           Inl e \<Rightarrow> (Some (nc_server_reply_err e), s2)
         | Inr (target, target_url) \<Rightarrow>
             (case target_url of
                Some url \<Rightarrow> delete_url en url s2
              | None \<Rightarrow> delete_datastore en ly_ctx target s2)))"

subsection \<open>Notions used to state the properties\<close>

text \<open>
  A module has configuration when one of its top-level nodes is not skipped by the inner
  loop: the node is a container, list, leaf-list, leaf or anyxml/anydata and is not
  read-only. \<open>delete_paths\<close> lists, in context order, the delete path of every such module.
\<close>

definition has_config_node :: "lys_module \<Rightarrow> bool" where
  "has_config_node m = list_ex (\<lambda>iter. \<not> skip_node iter) (data m)"

definition delete_paths :: "lys_module list \<Rightarrow> string list" where
  "delete_paths ly_ctx = map (\<lambda>m. snprintf_path (name m)) (filter has_config_node ly_ctx)"

text \<open>The calls that reach the datastore engine and may change it or the connection.\<close>

fun is_store_call :: "call \<Rightarrow> bool" where
  "is_store_call (Sr_session_switch_ds t) = True"
| "is_store_call Sr_session_refresh = True"
| "is_store_call (Sr_delete_item p) = True"
| "is_store_call Sr_discard_changes = True"
| "is_store_call Sr_commit = True"
| "is_store_call c = False"

text \<open>The calls of the erase itself: the deletes, the discard and the commit.\<close>

fun is_erase_call :: "call \<Rightarrow> bool" where
  "is_erase_call (Sr_delete_item p) = True"
| "is_erase_call Sr_discard_changes = True"
| "is_erase_call Sr_commit = True"
| "is_erase_call c = False"


text \<open>The paths of the delete calls in a log, in the order of the calls.\<close>

fun deletes_issued :: "event list \<Rightarrow> string list" where
  "deletes_issued [] = []"
| "deletes_issued ((Sr_delete_item p, r) # evs) = p # deletes_issued evs"
| "deletes_issued (ev # evs) = deletes_issued evs"

text \<open>The log entries of deletes that succeeded, one per path.\<close>

definition deleted_ok :: "string list \<Rightarrow> event list" where
  "deleted_ok ps = map (\<lambda>p. (Sr_delete_item p, RC_OK)) ps"

text \<open>The part of the log that one run of the handler added.\<close>

definition new_calls :: "state \<Rightarrow> state \<Rightarrow> event list" where
  "new_calls s s' = drop (length (trace s)) (trace s')"

text \<open>The error of line 65, of line 72 and of line 88.\<close>

definition err_missing_url :: nc_server_error where
  "err_missing_url =
     \<lparr>err_tag = NC_ERR_OP_FAILED, err_type = NC_ERR_TYPE_APP,
      err_message = Some ''Missing target url'', err_message_lang = Some ''en''\<rparr>"

definition err_url_unsupported :: nc_server_error where
  "err_url_unsupported =
     \<lparr>err_tag = NC_ERR_OP_FAILED, err_type = NC_ERR_TYPE_APP,
      err_message = Some ''<url> source not supported'', err_message_lang = Some ''en''\<rparr>"

definition err_invalid_config :: nc_server_error where
  "err_invalid_config =
     \<lparr>err_tag = NC_ERR_OP_FAILED, err_type = NC_ERR_TYPE_APP,
      err_message = Some ''File at url does not appear to contain a valid config'',
      err_message_lang = Some ''en''\<rparr>"

text \<open>The two log entries every run makes once the permission check has passed.\<close>

definition perm_ok :: event where
  "perm_ok = (Sr_check_exec_permission ''/ietf-netconf:delete-config'', RC_OK)"

definition found_target :: event where
  "found_target = (Lyd_find_path ''/ietf-netconf:delete-config/target/*'', RC_OK)"

text \<open>The Access-Denied error that the permission check leaves.\<close>

definition err_access_denied :: "NC_ERR_TYPE \<Rightarrow> string option \<Rightarrow> nc_server_error" where
  "err_access_denied ty msg =
     \<lparr>err_tag = NC_ERR_ACCESS_DENIED, err_type = ty, err_message = msg,
      err_message_lang = None\<rparr>"

text \<open>
  What the switch step of lines 103 to 109 adds to the log when it succeeds, and the
  datastore the connection is bound to afterwards.
\<close>

definition switch_log :: "sr_datastore_t \<Rightarrow> state \<Rightarrow> event list" where
  "switch_log target s =
     (if ds s \<noteq> target then [(Sr_session_switch_ds target, RC_OK)] else [])"

definition bound_after :: "sr_datastore_t \<Rightarrow> state \<Rightarrow> sr_datastore_t" where
  "bound_after target s = (if ds s \<noteq> target then target else sr_ds s)"

text \<open>Concrete inputs for the examples.\<close>

definition env_all_ok :: env where
  "env_all_ok =
     \<lparr>env_exec_permission = (\<lambda>h x. None),
      env_url_import = (\<lambda>h u. (RC_OK, [(''m'', ''<a/>'')])),
      env_url_init = (\<lambda>h u. RC_OK),
      env_switch_ds = (\<lambda>h t. RC_OK),
      env_refresh = (\<lambda>h. RC_OK),
      env_delete_item = (\<lambda>h p. RC_OK),
      env_commit = (\<lambda>h. RC_OK)\<rparr>"

definition env_denied :: env where
  "env_denied =
     env_all_ok\<lparr>env_exec_permission := (\<lambda>h x. Some (NC_ERR_TYPE_PROT, Some ''denied''))\<rparr>"

definition err_example :: nc_server_error where
  "err_example =
     \<lparr>err_tag = NC_ERR_OP_FAILED, err_type = NC_ERR_TYPE_APP,
      err_message = Some ''sysrepo error'', err_message_lang = Some ''en''\<rparr>"

definition env_import_fails :: env where
  "env_import_fails = env_all_ok\<lparr>env_url_import := (\<lambda>h u. (RC_ERR err_example [], []))\<rparr>"

definition env_switch_fails :: env where
  "env_switch_fails = env_all_ok\<lparr>env_switch_ds := (\<lambda>h t. RC_ERR err_example [])\<rparr>"

text \<open>The second delete call fails: the log then holds one delete that succeeded.\<close>

definition env_second_delete_fails :: env where
  "env_second_delete_fails =
     env_all_ok\<lparr>env_delete_item :=
       (\<lambda>h p. if deletes_issued h = [] then RC_OK else RC_ERR err_example [])\<rparr>"

definition rpc_startup :: request where
  "rpc_startup = \<lparr>dsname = ''startup'', value_str = None\<rparr>"

definition rpc_running :: request where
  "rpc_running = \<lparr>dsname = ''running'', value_str = None\<rparr>"

definition rpc_url :: request where
  "rpc_url = \<lparr>dsname = ''url'', value_str = Some ''file:///tmp/cfg.xml''\<rparr>"

definition rpc_url_empty :: request where
  "rpc_url_empty = \<lparr>dsname = ''url'', value_str = Some []\<rparr>"

definition rpc_url_absent :: request where
  "rpc_url_absent = \<lparr>dsname = ''url'', value_str = None\<rparr>"

definition state_example :: state where
  "state_example =
     \<lparr>ds = SR_DS_RUNNING, trace = [], sr_ds = SR_DS_RUNNING,
      sr_content = (\<lambda>d. [(''a'', ''<x/>''), (''b'', ''<y/>''), (''c'', ''<z/>'')]),
      sr_pending = []\<rparr>"

definition ctx_example :: "lys_module list" where
  "ctx_example =
     [\<lparr>name = ''a'', data = [\<lparr>nodetype = LYS_RPC, flags = 0\<rparr>,
                              \<lparr>nodetype = LYS_CONTAINER, flags = LYS_CONFIG_W\<rparr>,
                              \<lparr>nodetype = LYS_LEAF, flags = LYS_CONFIG_W\<rparr>]\<rparr>,
      \<lparr>name = ''b'', data = [\<lparr>nodetype = LYS_LIST, flags = LYS_CONFIG_R\<rparr>,
                              \<lparr>nodetype = LYS_NOTIF, flags = 0\<rparr>]\<rparr>,
      \<lparr>name = ''c'', data = [\<lparr>nodetype = LYS_LEAFLIST, flags = LYS_CONFIG_W\<rparr>]\<rparr>]"




section \<open>Properties\<close>

subsection \<open>The shape of a run\<close>

lemmas helper_defs = np2srv_sr_check_exec_permission_def lyd_find_path_def op_url_import_def
  lyd_free_withsiblings_def op_url_init_def np2srv_sr_session_switch_ds_def
  np2srv_sr_session_refresh_def np2srv_sr_delete_item_def np2srv_sr_discard_changes_def
  np2srv_sr_commit_def log_call_def

lemma tree_for_eq:
  "tree_for en nm nodes s =
     (if list_ex (\<lambda>iter. \<not> skip_node iter) nodes
      then (case np2srv_sr_delete_item en (snprintf_path nm) s of (r, s1) \<Rightarrow>
              if r \<noteq> RC_OK then (r, np2srv_sr_discard_changes s1) else (RC_OK, s1))
      else (RC_OK, s))"
  by (induction nodes) auto

lemma deleted_ok_simps [simp]:
  "deleted_ok [] = []" "deleted_ok (p # ps) = (Sr_delete_item p, RC_OK) # deleted_ok ps"
  "deleted_ok (ps @ qs) = deleted_ok ps @ deleted_ok qs"
  by (simp_all add: deleted_ok_def)

lemma delete_paths_simps [simp]:
  "delete_paths [] = []"
  "delete_paths (m # ms) =
     (if has_config_node m then snprintf_path (name m) # delete_paths ms else delete_paths ms)"
  by (simp_all add: delete_paths_def)

lemma module_iter_shape:
  "module_iter en mods s = (r, s') \<Longrightarrow>
     ds s' = ds s \<and> sr_ds s' = sr_ds s \<and> sr_content s' = sr_content s \<and>
     (if r = RC_OK
      then trace s' = trace s @ deleted_ok (delete_paths mods) \<and>
           sr_pending s' = sr_pending s @ delete_paths mods
      else sr_pending s' = [] \<and>
           (\<exists>ps p qs. delete_paths mods = ps @ p # qs \<and>
              r = env_delete_item en (trace s @ deleted_ok ps) p \<and>
              trace s' = trace s @ deleted_ok ps @ [(Sr_delete_item p, r), (Sr_discard_changes, RC_OK)]))"
proof (induction mods arbitrary: s)
  case Nil
  then show ?case by auto
next
  case (Cons m mods)
  show ?case
  proof (cases "has_config_node m")
    case False
    with Cons.prems have "module_iter en mods s = (r, s')"
      by (simp add: tree_for_eq has_config_node_def)
    from Cons.IH [OF this] False show ?thesis
      by (cases "r = RC_OK") auto
  next
    case True
    define p0 where "p0 = snprintf_path (name m)"
    define r0 where "r0 = env_delete_item en (trace s) p0"
    show ?thesis
    proof (cases "r0 = RC_OK")
      case ok: True
      define s1 where "s1 = s\<lparr>trace := trace s @ [(Sr_delete_item p0, RC_OK)],
                              sr_pending := sr_pending s @ [p0]\<rparr>"
      from Cons.prems True ok have "module_iter en mods s1 = (r, s')"
        by (simp add: tree_for_eq has_config_node_def helper_defs Let_def r0_def s1_def p0_def)
      note ih = Cons.IH [OF this]
      show ?thesis
      proof (cases "r = RC_OK")
        case True
        with ih \<open>has_config_node m\<close> show ?thesis
          by (simp add: s1_def p0_def)
      next
        case False
        with ih obtain ps p qs where
          dp: "delete_paths mods = ps @ p # qs" and
          rr: "r = env_delete_item en (trace s1 @ deleted_ok ps) p" and
          tr: "trace s' = trace s1 @ deleted_ok ps @ [(Sr_delete_item p, r), (Sr_discard_changes, RC_OK)]"
          by auto
        from dp \<open>has_config_node m\<close> have "delete_paths (m # mods) = (p0 # ps) @ p # qs"
          by (simp add: p0_def)
        moreover from rr have "r = env_delete_item en (trace s @ deleted_ok (p0 # ps)) p"
          by (simp add: s1_def)
        moreover from tr have
          "trace s' = trace s @ deleted_ok (p0 # ps) @ [(Sr_delete_item p, r), (Sr_discard_changes, RC_OK)]"
          by (simp add: s1_def)
        ultimately have "\<exists>ps p qs. delete_paths (m # mods) = ps @ p # qs \<and>
              r = env_delete_item en (trace s @ deleted_ok ps) p \<and>
              trace s' = trace s @ deleted_ok ps @ [(Sr_delete_item p, r), (Sr_discard_changes, RC_OK)]"
          by blast
        with ih False show ?thesis by (auto simp add: s1_def)
      qed
    next
      case bad: False
      from Cons.prems True bad have r: "r = r0" and
        s': "s' = s\<lparr>trace := trace s @ [(Sr_delete_item p0, r0), (Sr_discard_changes, RC_OK)],
                sr_pending := []\<rparr>"
        by (auto simp add: tree_for_eq has_config_node_def helper_defs Let_def r0_def p0_def)
      from True have "delete_paths (m # mods) = [] @ p0 # delete_paths mods"
        by (simp add: p0_def)
      moreover from r have "r = env_delete_item en (trace s @ deleted_ok []) p0"
        by (simp add: r0_def)
      moreover from s' r have
        "trace s' = trace s @ deleted_ok [] @ [(Sr_delete_item p0, r), (Sr_discard_changes, RC_OK)]"
        by simp
      ultimately have "\<exists>ps p qs. delete_paths (m # mods) = ps @ p # qs \<and>
              r = env_delete_item en (trace s @ deleted_ok ps) p \<and>
              trace s' = trace s @ deleted_ok ps @ [(Sr_delete_item p, r), (Sr_discard_changes, RC_OK)]"
        by blast
      with bad r s' show ?thesis by simp
    qed
  qed
qed


lemma delete_datastore_cases [consumes 1, case_names switch_failed refresh_failed delete_failed commit_failed committed]:
  assumes run: "delete_datastore en ly_ctx target s = (reply, s')"
  obtains
    (switch_failed) r where
      "ds s \<noteq> target" "r \<noteq> RC_OK" "reply = ereply_of r"
      "r = env_switch_ds en (trace s) target"
      "s' = s\<lparr>trace := trace s @ [(Sr_session_switch_ds target, r)]\<rparr>"
  | (refresh_failed) r where
      "r \<noteq> RC_OK" "reply = ereply_of r"
      "r = env_refresh en (trace s @ switch_log target s)"
      "trace s' = trace s @ switch_log target s @ [(Sr_session_refresh, r)]"
      "ds s' = target" "sr_ds s' = bound_after target s"
      "sr_content s' = sr_content s" "sr_pending s' = sr_pending s"
  | (delete_failed) r ps p qs where
      "r \<noteq> RC_OK" "reply = ereply_of r" "delete_paths ly_ctx = ps @ p # qs"
      "r = env_delete_item en
             (trace s @ switch_log target s @ [(Sr_session_refresh, RC_OK)] @ deleted_ok ps) p"
      "trace s' = trace s @ switch_log target s @ [(Sr_session_refresh, RC_OK)] @
                  deleted_ok ps @ [(Sr_delete_item p, r), (Sr_discard_changes, RC_OK)]"
      "ds s' = target" "sr_ds s' = bound_after target s"
      "sr_content s' = sr_content s" "sr_pending s' = []"
  | (commit_failed) r where
      "r \<noteq> RC_OK" "reply = ereply_of r"
      "r = env_commit en (trace s @ switch_log target s @ [(Sr_session_refresh, RC_OK)] @
                          deleted_ok (delete_paths ly_ctx))"
      "trace s' = trace s @ switch_log target s @ [(Sr_session_refresh, RC_OK)] @
                  deleted_ok (delete_paths ly_ctx) @ [(Sr_commit, r), (Sr_discard_changes, RC_OK)]"
      "ds s' = target" "sr_ds s' = bound_after target s"
      "sr_content s' = sr_content s" "sr_pending s' = []"
  | (committed)
      "reply = Some NC_RPL_OK"
      "trace s' = trace s @ switch_log target s @ [(Sr_session_refresh, RC_OK)] @
                  deleted_ok (delete_paths ly_ctx) @ [(Sr_commit, RC_OK)]"
      "ds s' = target" "sr_ds s' = bound_after target s"
      "sr_content s' = (sr_content s)
         (bound_after target s :=
            fold sr_apply_delete (sr_pending s @ delete_paths ly_ctx)
              (sr_content s (bound_after target s)))"
      "sr_pending s' = []"
proof -
  define r1 where "r1 = (if ds s \<noteq> target then env_switch_ds en (trace s) target else RC_OK)"
  show thesis
  proof (cases "r1 = RC_OK")
    case False
    then have neq: "ds s \<noteq> target" and r1: "r1 = env_switch_ds en (trace s) target"
      by (auto simp: r1_def split: if_splits)
    from run False neq r1 have "reply = ereply_of r1"
      "s' = s\<lparr>trace := trace s @ [(Sr_session_switch_ds target, r1)]\<rparr>"
      by (auto simp: delete_datastore_def helper_defs Let_def)
    with False neq r1 show thesis by (intro switch_failed [of r1]) auto
  next
    case sw: True
    define s1 where "s1 = (if ds s \<noteq> target
       then s\<lparr>trace := trace s @ [(Sr_session_switch_ds target, RC_OK)], sr_ds := target, ds := target\<rparr>
       else s)"
    have s1: "trace s1 = trace s @ switch_log target s" "ds s1 = target"
      "sr_ds s1 = bound_after target s" "sr_content s1 = sr_content s"
      "sr_pending s1 = sr_pending s"
      by (auto simp: s1_def switch_log_def bound_after_def)
    define r2 where "r2 = env_refresh en (trace s1)"
    define s2 where "s2 = s1\<lparr>trace := trace s1 @ [(Sr_session_refresh, r2)]\<rparr>"
    from run sw have run2:
      "(if r2 \<noteq> RC_OK then (ereply_of r2, s2) else
        (case module_iter en ly_ctx s2 of (r3, s3) \<Rightarrow>
         if r3 \<noteq> RC_OK then (ereply_of r3, s3) else
         (case np2srv_sr_commit en s3 of (r4, s4) \<Rightarrow>
          if r4 \<noteq> RC_OK then (ereply_of r4, np2srv_sr_discard_changes s4)
          else (Some nc_server_reply_ok, s4)))) = (reply, s')"
      by (auto simp: delete_datastore_def np2srv_sr_session_switch_ds_def
            np2srv_sr_session_refresh_def log_call_def Let_def r1_def s1_def r2_def s2_def
          split: if_splits)
    show thesis
    proof (cases "r2 = RC_OK")
      case False
      with run2 have "reply = ereply_of r2" "s' = s2" by auto
      with False s1 show thesis
        by (intro refresh_failed [of r2]) (auto simp: s2_def r2_def)
    next
      case rf: True
      obtain r3 s3 where mi: "module_iter en ly_ctx s2 = (r3, s3)" by force
      note shape = module_iter_shape [OF mi]
      have s2: "trace s2 = trace s @ switch_log target s @ [(Sr_session_refresh, RC_OK)]"
        "ds s2 = target" "sr_ds s2 = bound_after target s" "sr_content s2 = sr_content s"
        "sr_pending s2 = sr_pending s"
        using s1 rf by (auto simp: s2_def)
      show thesis
      proof (cases "r3 = RC_OK")
        case False
        with run2 rf mi have "reply = ereply_of r3" "s' = s3" by auto
        moreover from shape False obtain ps p qs where
          "delete_paths ly_ctx = ps @ p # qs"
          "r3 = env_delete_item en (trace s2 @ deleted_ok ps) p"
          "trace s3 = trace s2 @ deleted_ok ps @ [(Sr_delete_item p, r3), (Sr_discard_changes, RC_OK)]"
          by auto
        ultimately show thesis using False shape s2
          by (intro delete_failed [of r3 ps p qs]) auto
      next
        case dl: True
        with shape s2 have s3:
          "trace s3 = trace s @ switch_log target s @ [(Sr_session_refresh, RC_OK)] @
                      deleted_ok (delete_paths ly_ctx)"
          "ds s3 = target" "sr_ds s3 = bound_after target s" "sr_content s3 = sr_content s"
          "sr_pending s3 = sr_pending s @ delete_paths ly_ctx"
          by auto
        define r4 where "r4 = env_commit en (trace s3)"
        show thesis
        proof (cases "r4 = RC_OK")
          case False
          with run2 rf mi dl have "reply = ereply_of r4"
            "s' = s3\<lparr>trace := trace s3 @ [(Sr_commit, r4), (Sr_discard_changes, RC_OK)], sr_pending := []\<rparr>"
            by (auto simp: helper_defs Let_def r4_def)
          with False s3 show thesis
            by (intro commit_failed [of r4]) (auto simp: r4_def)
        next
          case True
          with run2 rf mi dl have "reply = Some NC_RPL_OK"
            "s' = s3\<lparr>trace := trace s3 @ [(Sr_commit, RC_OK)],
                    sr_content := (sr_content s3)
                        (sr_ds s3 := fold sr_apply_delete (sr_pending s3) (sr_content s3 (sr_ds s3))),
                    sr_pending := []\<rparr>"
            by (auto simp: helper_defs Let_def r4_def nc_server_reply_ok_def)
          with s3 show thesis
            by (intro committed) auto
        qed
      qed
    qed
  qed
qed


lemma resolve_target_cases [case_names is_startup is_url no_value no_capability is_other]:
  obtains
    (is_startup) "dsname rpc = ''startup''" "resolve_target url_cap rpc = Inr (SR_DS_STARTUP, None)"
  | (is_url) u where "dsname rpc = ''url''" "url_cap" "value_str rpc = Some u"
      "resolve_target url_cap rpc = Inr (0, Some u)"
  | (no_value) "dsname rpc = ''url''" "url_cap" "value_str rpc = None"
      "resolve_target url_cap rpc = Inl err_missing_url"
  | (no_capability) "dsname rpc = ''url''" "\<not> url_cap"
      "resolve_target url_cap rpc = Inl err_url_unsupported"
  | (is_other) "dsname rpc \<noteq> ''startup''" "dsname rpc \<noteq> ''url''"
      "resolve_target url_cap rpc = Inr (0, None)"
  by (cases "value_str rpc")
     (auto simp: resolve_target_def err_missing_url_def err_url_unsupported_def
        nc_err_def nc_err_set_msg_def)

lemma delete_url_cases [consumes 1, case_names import_failed init_failed initialised]:
  assumes run: "delete_url en u s = (reply, s')"
  obtains
    (import_failed) e es doc where
      "env_url_import en (trace s) u = (RC_ERR e es, doc)"
      "reply = Some (NC_RPL_ERROR (e # es @ [err_invalid_config]))"
      "s' = s\<lparr>trace := trace s @ [(Op_url_import u, RC_ERR e es)]\<rparr>"
  | (init_failed) doc e es where
      "env_url_import en (trace s) u = (RC_OK, doc)"
      "reply = Some (NC_RPL_ERROR (e # es))"
      "s' = s\<lparr>trace := trace s @ [(Op_url_import u, RC_OK),
                (Lyd_free_withsiblings doc, RC_OK), (Op_url_init u, RC_ERR e es)]\<rparr>"
  | (initialised) doc where
      "env_url_import en (trace s) u = (RC_OK, doc)"
      "reply = Some NC_RPL_OK"
      "s' = s\<lparr>trace := trace s @ [(Op_url_import u, RC_OK),
                (Lyd_free_withsiblings doc, RC_OK), (Op_url_init u, RC_OK)]\<rparr>"
proof -
  obtain r1 doc where imp: "env_url_import en (trace s) u = (r1, doc)" by force
  show thesis
  proof (cases r1)
    case (RC_ERR e es)
    with run imp show thesis
      by (intro import_failed [of e es doc])
         (auto simp: delete_url_def helper_defs Let_def err_invalid_config_def
            nc_err_def nc_err_set_msg_def)
  next
    case RC_OK
    define s1 where "s1 = s\<lparr>trace := trace s @ [(Op_url_import u, RC_OK),
                (Lyd_free_withsiblings doc, RC_OK)]\<rparr>"
    from run imp RC_OK have run2:
      "(case env_url_init en (trace s1) u of r2 \<Rightarrow>
          if r2 \<noteq> RC_OK then (ereply_of r2, s1\<lparr>trace := trace s1 @ [(Op_url_init u, r2)]\<rparr>)
          else (Some NC_RPL_OK, s1\<lparr>trace := trace s1 @ [(Op_url_init u, r2)]\<rparr>)) = (reply, s')"
      by (auto simp: delete_url_def helper_defs Let_def s1_def nc_server_reply_ok_def)
    show thesis
    proof (cases "env_url_init en (trace s1) u")
      case ok: RC_OK
      with run2 imp RC_OK show thesis
        by (intro initialised [of doc]) (auto simp: s1_def)
    next
      case (RC_ERR e es)
      with run2 imp RC_OK show thesis
        by (intro init_failed [of doc e es]) (auto simp: s1_def)
    qed
  qed
qed

lemma op_deleteconfig_cases [consumes 1, case_names denied target_error url datastore]:
  assumes run: "op_deleteconfig url_cap en ly_ctx rpc s = (reply, s')"
  obtains
    (denied) ty msg where
      "env_exec_permission en (trace s) ''/ietf-netconf:delete-config'' = Some (ty, msg)"
      "reply = Some (NC_RPL_ERROR [err_access_denied ty msg])"
      "s' = s\<lparr>trace := trace s @ [(Sr_check_exec_permission ''/ietf-netconf:delete-config'',
                                      RC_ERR (err_access_denied ty msg) [])]\<rparr>"
  | (target_error) e where
      "env_exec_permission en (trace s) ''/ietf-netconf:delete-config'' = None"
      "resolve_target url_cap rpc = Inl e"
      "reply = Some (NC_RPL_ERROR [e])"
      "s' = s\<lparr>trace := trace s @ [perm_ok, found_target]\<rparr>"
  | (url) u where
      "env_exec_permission en (trace s) ''/ietf-netconf:delete-config'' = None"
      "resolve_target url_cap rpc = Inr (0, Some u)"
      "delete_url en u (s\<lparr>trace := trace s @ [perm_ok, found_target]\<rparr>) = (reply, s')"
  | (datastore)
      "env_exec_permission en (trace s) ''/ietf-netconf:delete-config'' = None"
      "resolve_target url_cap rpc = Inr (SR_DS_STARTUP, None)"
      "delete_datastore en ly_ctx SR_DS_STARTUP (s\<lparr>trace := trace s @ [perm_ok, found_target]\<rparr>)
         = (reply, s')"
proof (cases "env_exec_permission en (trace s) ''/ietf-netconf:delete-config''")
  case (Some a)
  obtain ty msg where a: "a = (ty, msg)" by force
  with run Some show thesis
    by (intro denied [of ty msg])
       (auto simp: op_deleteconfig_def helper_defs Let_def err_access_denied_def nc_err_def)
next
  case None
  note defs = op_deleteconfig_def helper_defs Let_def perm_ok_def found_target_def
    nc_server_reply_err_def
  show thesis
  proof (cases url_cap rpc rule: resolve_target_cases)
    case is_startup
    with run None show ?thesis by (intro datastore) (auto simp: defs)
  next
    case (is_url u)
    with run None show ?thesis by (intro url [of u]) (auto simp: defs)
  next
    case no_value
    with run None show ?thesis by (intro target_error [of err_missing_url]) (auto simp: defs)
  next
    case no_capability
    with run None show ?thesis by (intro target_error [of err_url_unsupported]) (auto simp: defs)
  next
    case is_other
    with run None show ?thesis by (intro datastore) (auto simp: defs SR_DS_STARTUP_def)
  qed
qed


lemma new_calls_append: "trace s' = trace s @ evs \<Longrightarrow> new_calls s s' = evs"
  by (simp add: new_calls_def)

lemma ereply_of_error: "r \<noteq> RC_OK \<Longrightarrow> \<exists>e es. ereply_of r = Some (NC_RPL_ERROR (e # es))"
  by (cases r) auto

lemma resolve_target_no_capability:
  "dsname rpc = ''url'' \<Longrightarrow> resolve_target False rpc = Inl err_url_unsupported"
  by (simp add: resolve_target_def err_url_unsupported_def nc_err_def nc_err_set_msg_def)

lemma resolve_target_url:
  "dsname rpc = ''url'' \<Longrightarrow> resolve_target True rpc =
     (case value_str rpc of Some u \<Rightarrow> Inr (0, Some u) | None \<Rightarrow> Inl err_missing_url)"
  by (simp add: resolve_target_def err_missing_url_def nc_err_def nc_err_set_msg_def
        split: option.splits)

lemma resolve_target_other:
  "dsname rpc \<noteq> ''url'' \<Longrightarrow> resolve_target url_cap rpc = Inr (SR_DS_STARTUP, None)"
  by (simp add: resolve_target_def SR_DS_STARTUP_def)

lemma op_deleteconfig_permitted:
  "env_exec_permission en (trace s) ''/ietf-netconf:delete-config'' = None \<Longrightarrow>
   op_deleteconfig url_cap en ly_ctx rpc s =
     (case resolve_target url_cap rpc of
        Inl e \<Rightarrow> (Some (NC_RPL_ERROR [e]), s\<lparr>trace := trace s @ [perm_ok, found_target]\<rparr>)
      | Inr (target, None) \<Rightarrow>
          delete_datastore en ly_ctx target (s\<lparr>trace := trace s @ [perm_ok, found_target]\<rparr>)
      | Inr (target, Some u) \<Rightarrow>
          delete_url en u (s\<lparr>trace := trace s @ [perm_ok, found_target]\<rparr>))"
  by (simp add: op_deleteconfig_def helper_defs Let_def perm_ok_def found_target_def
        nc_server_reply_err_def split: sum.splits option.splits prod.splits)

lemma delete_datastore_all_ok:
  assumes sw: "\<forall>h t. env_switch_ds en h t = RC_OK" and rf: "\<forall>h. env_refresh en h = RC_OK"
    and dl: "\<forall>h p. env_delete_item en h p = RC_OK" and cm: "\<forall>h. env_commit en h = RC_OK"
    and run: "delete_datastore en ly_ctx target s = (reply, s')"
  shows "reply = Some NC_RPL_OK \<and> ds s' = target \<and>
         trace s' = trace s @ switch_log target s @ [(Sr_session_refresh, RC_OK)] @
                    deleted_ok (delete_paths ly_ctx) @ [(Sr_commit, RC_OK)]"
  using run
proof (cases rule: delete_datastore_cases)
  case (switch_failed r)
  with sw show ?thesis by simp
next
  case (refresh_failed r)
  with rf show ?thesis by simp
next
  case (delete_failed r ps p qs)
  with dl show ?thesis by simp
next
  case (commit_failed r)
  with cm show ?thesis by simp
next
  case committed
  then show ?thesis by simp
qed


























subsection \<open>Evaluating the examples\<close>

lemmas example_defs = env_all_ok_def env_denied_def env_import_fails_def env_switch_fails_def
  env_second_delete_fails_def err_example_def state_example_def
  ctx_example_def rpc_startup_def rpc_running_def rpc_url_def rpc_url_empty_def
  rpc_url_absent_def

lemmas run_defs = op_deleteconfig_def resolve_target_def delete_url_def delete_datastore_def
  helper_defs Let_def nc_err_def nc_err_set_msg_def nc_server_reply_err_def
  nc_server_reply_ok_def snprintf_path_def skip_node_def sr_apply_delete_def
  SR_DS_STARTUP_def SR_DS_RUNNING_def SR_DS_CANDIDATE_def
  LYS_CONTAINER_def LYS_CHOICE_def LYS_LEAF_def LYS_LEAFLIST_def LYS_LIST_def LYS_ANYXML_def
  LYS_NOTIF_def LYS_RPC_def LYS_CONFIG_W_def LYS_CONFIG_R_def

subsection \<open>The claims\<close>

text \<open>
  C2, permission short-circuit. When the permission check answers that the caller may not
  execute delete-config, the handler returns the Access-Denied error reply of the check
  and the state it leaves differs from the state it found in one log entry only, the
  permission check itself: the target is not looked up, and no switch, refresh, delete,
  discard or commit is issued.
\<close>

theorem permission_short_circuit:
  "env_exec_permission en (trace s) ''/ietf-netconf:delete-config'' = Some (ty, msg) \<Longrightarrow>
   op_deleteconfig url_cap en ly_ctx rpc s =
     (Some (NC_RPL_ERROR [err_access_denied ty msg]),
      s\<lparr>trace := trace s @
          [(Sr_check_exec_permission ''/ietf-netconf:delete-config'',
            RC_ERR (err_access_denied ty msg) [])]\<rparr>)"
  by (simp add: op_deleteconfig_def np2srv_sr_check_exec_permission_def log_call_def
        err_access_denied_def nc_err_def Let_def)

theorem permission_short_circuit_witness:
  "env_exec_permission env_denied (trace state_example) ''/ietf-netconf:delete-config''
     = Some (NC_ERR_TYPE_PROT, Some ''denied'') \<and>
   op_deleteconfig True env_denied ctx_example rpc_startup state_example =
     (Some (NC_RPL_ERROR [err_access_denied NC_ERR_TYPE_PROT (Some ''denied'')]),
      state_example\<lparr>trace :=
          [(Sr_check_exec_permission ''/ietf-netconf:delete-config'',
            RC_ERR (err_access_denied NC_ERR_TYPE_PROT (Some ''denied'')) [])]\<rparr>)"
  using permission_short_circuit [of env_denied state_example NC_ERR_TYPE_PROT "Some ''denied''"
          True ctx_example rpc_startup]
  by (simp add: env_denied_def env_all_ok_def state_example_def)

text \<open>
  C4, capability gating. In a build without the URL capability, a request whose target is
  \<open>url\<close> is answered, once the permission check has passed, with one Operation-Failed
  error with the message "<url> source not supported", after the permission check and the
  lookup of the target and nothing else. Whatever the permission check answers, the bound
  datastore, the content and the pending changes are left as they were and no switch,
  refresh, delete, discard or commit is issued.
\<close>

theorem capability_gating:
  assumes tag: "dsname rpc = ''url''"
    and run: "op_deleteconfig False en ly_ctx rpc s = (reply, s')"
  shows "(env_exec_permission en (trace s) ''/ietf-netconf:delete-config'' = None \<longrightarrow>
            reply = Some (NC_RPL_ERROR [err_url_unsupported]) \<and>
            new_calls s s' = [perm_ok, found_target]) \<and>
         ds s' = ds s \<and> sr_ds s' = sr_ds s \<and> sr_content s' = sr_content s \<and>
         sr_pending s' = sr_pending s \<and>
         (\<forall>ev \<in> set (new_calls s s'). \<not> is_store_call (fst ev))"
proof (cases "env_exec_permission en (trace s) ''/ietf-netconf:delete-config''")
  case None
  with run tag have "reply = Some (NC_RPL_ERROR [err_url_unsupported])"
    "s' = s\<lparr>trace := trace s @ [perm_ok, found_target]\<rparr>"
    by (simp_all add: op_deleteconfig_permitted resolve_target_no_capability)
  then show ?thesis
    by (simp add: new_calls_def perm_ok_def found_target_def)
next
  case (Some a)
  from run show ?thesis
    by (cases rule: op_deleteconfig_cases) (use Some in \<open>auto simp: new_calls_def\<close>)
qed

theorem capability_gating_witness:
  "dsname rpc_url = ''url'' \<and>
   op_deleteconfig False env_all_ok ctx_example rpc_url state_example =
     (Some (NC_RPL_ERROR [err_url_unsupported]),
      state_example\<lparr>trace := [perm_ok, found_target]\<rparr>) \<and>
   new_calls state_example (state_example\<lparr>trace := [perm_ok, found_target]\<rparr>)
     = [perm_ok, found_target]"
  using capability_gating [of rpc_url env_all_ok ctx_example state_example
          "Some (NC_RPL_ERROR [err_url_unsupported])"
          "state_example\<lparr>trace := [perm_ok, found_target]\<rparr>"]
  by (simp add: run_defs example_defs perm_ok_def found_target_def err_url_unsupported_def
        new_calls_def)

text \<open>
  C3, missing URL. The claim rejects a location string that is empty or absent. The
  handler tests the pointer only (line 58): an empty string is a value, it is copied and
  handed to the import. The example is a request with the empty location in a build with
  the URL capability: the reply is not the "Missing target url" error and the import of
  the empty location is in the log.
\<close>

theorem empty_url_counterexample:
  "fst (op_deleteconfig True env_all_ok ctx_example rpc_url_empty state_example)
     \<noteq> Some (NC_RPL_ERROR [err_missing_url]) \<and>
   (Op_url_import [], RC_OK)
     \<in> set (trace (snd (op_deleteconfig True env_all_ok ctx_example rpc_url_empty state_example)))"
  by (simp add: run_defs example_defs)

text \<open>
  C3 as amended. With the URL capability compiled in and the permission check passed, a
  request whose target is \<open>url\<close> and whose location string is absent is answered with one
  Operation-Failed error with the message "Missing target url", after the permission check
  and the lookup of the target and nothing else: no import is attempted. A location string
  that is present, the empty string included, is handed to the import, which is the next
  call.
\<close>

theorem absent_url_rejected:
  assumes tag: "dsname rpc = ''url''"
    and perm: "env_exec_permission en (trace s) ''/ietf-netconf:delete-config'' = None"
  shows "(value_str rpc = None \<longrightarrow>
            op_deleteconfig True en ly_ctx rpc s =
              (Some (NC_RPL_ERROR [err_missing_url]),
               s\<lparr>trace := trace s @ [perm_ok, found_target]\<rparr>)) \<and>
         (\<forall>u. value_str rpc = Some u \<longrightarrow>
            (\<exists>r post. new_calls s (snd (op_deleteconfig True en ly_ctx rpc s)) =
               [perm_ok, found_target] @ (Op_url_import u, r) # post))"
proof (intro conjI allI impI)
  assume "value_str rpc = None"
  with tag perm show "op_deleteconfig True en ly_ctx rpc s =
      (Some (NC_RPL_ERROR [err_missing_url]), s\<lparr>trace := trace s @ [perm_ok, found_target]\<rparr>)"
    by (simp add: op_deleteconfig_permitted resolve_target_url)
next
  fix u assume u: "value_str rpc = Some u"
  define s2 where "s2 = s\<lparr>trace := trace s @ [perm_ok, found_target]\<rparr>"
  obtain reply s' where du: "delete_url en u s2 = (reply, s')" by force
  from tag perm u du have run: "op_deleteconfig True en ly_ctx rpc s = (reply, s')"
    by (simp add: op_deleteconfig_permitted resolve_target_url s2_def)
  from du have "\<exists>r post. trace s' = trace s2 @ (Op_url_import u, r) # post"
    by (cases rule: delete_url_cases) auto
  then obtain r post where "trace s' = trace s @ [perm_ok, found_target] @ (Op_url_import u, r) # post"
    by (auto simp: s2_def)
  then have "new_calls s s' = [perm_ok, found_target] @ (Op_url_import u, r) # post"
    by (rule new_calls_append)
  with run show "\<exists>r post. new_calls s (snd (op_deleteconfig True en ly_ctx rpc s)) =
               [perm_ok, found_target] @ (Op_url_import u, r) # post"
    by auto
qed

theorem absent_url_rejected_witness:
  "dsname rpc_url_absent = ''url'' \<and>
   env_exec_permission env_all_ok (trace state_example) ''/ietf-netconf:delete-config'' = None \<and>
   value_str rpc_url_absent = None \<and>
   op_deleteconfig True env_all_ok ctx_example rpc_url_absent state_example =
     (Some (NC_RPL_ERROR [err_missing_url]),
      state_example\<lparr>trace := trace state_example @ [perm_ok, found_target]\<rparr>)"
  using absent_url_rejected [of rpc_url_absent env_all_ok state_example ctx_example]
  by (simp add: example_defs)

text \<open>
  C5, import failure. The claim has the handler return a single error. The handler does not
  build a reply of its own on this path: it appends its error to the reply that the failed
  import left (line 89), so the reply holds the import's errors first. The example is an
  import that fails with one error: the reply holds two.
\<close>

theorem single_error_counterexample:
  "fst (op_deleteconfig True env_import_fails ctx_example rpc_url state_example)
     = Some (NC_RPL_ERROR [err_example, err_invalid_config]) \<and>
   fst (op_deleteconfig True env_import_fails ctx_example rpc_url state_example)
     \<noteq> Some (NC_RPL_ERROR [err_invalid_config])"
  by (simp add: run_defs example_defs err_invalid_config_def)

text \<open>
  C5 as amended. On the URL path, when the import of the location fails, the handler
  returns the error reply of the import with one Operation-Failed error appended, whose
  message is "File at url does not appear to contain a valid config". It goes no further:
  the log gains the permission check, the lookup of the target and the failed import, and
  the state is otherwise unchanged, so the location is not reinitialized and the datastore
  is not called.
\<close>

theorem import_failure_reply:
  assumes tag: "dsname rpc = ''url''" and url: "value_str rpc = Some u"
    and perm: "env_exec_permission en (trace s) ''/ietf-netconf:delete-config'' = None"
    and imp: "env_url_import en (trace s @ [perm_ok, found_target]) u = (RC_ERR e es, doc)"
  shows "op_deleteconfig True en ly_ctx rpc s =
           (Some (NC_RPL_ERROR (e # es @ [err_invalid_config])),
            s\<lparr>trace := trace s @ [perm_ok, found_target, (Op_url_import u, RC_ERR e es)]\<rparr>)"
  using assms
  by (simp add: op_deleteconfig_permitted resolve_target_url delete_url_def op_url_import_def
        log_call_def Let_def err_invalid_config_def nc_err_def nc_err_set_msg_def)

theorem import_failure_reply_witness:
  "dsname rpc_url = ''url'' \<and> value_str rpc_url = Some ''file:///tmp/cfg.xml'' \<and>
   env_exec_permission env_import_fails (trace state_example) ''/ietf-netconf:delete-config''
     = None \<and>
   env_url_import env_import_fails (trace state_example @ [perm_ok, found_target])
     ''file:///tmp/cfg.xml'' = (RC_ERR err_example [], []) \<and>
   op_deleteconfig True env_import_fails ctx_example rpc_url state_example =
     (Some (NC_RPL_ERROR [err_example, err_invalid_config]),
      state_example\<lparr>trace := trace state_example @
         [perm_ok, found_target, (Op_url_import ''file:///tmp/cfg.xml'', RC_ERR err_example [])]\<rparr>)"
  using import_failure_reply [of rpc_url "''file:///tmp/cfg.xml''" env_import_fails state_example
          err_example "[]" "[]" ctx_example]
  by (simp add: example_defs)

text \<open>
  C8, exactly one reply. The handler is a total function, so every invocation returns. On
  every input the reply it returns is either the acknowledgement or an error reply with at
  least one error, and never both; in particular it is never \<open>NULL\<close>.
\<close>

theorem exactly_one_reply:
  "(fst (op_deleteconfig url_cap en ly_ctx rpc s) = Some NC_RPL_OK) \<noteq>
   (\<exists>e es. fst (op_deleteconfig url_cap en ly_ctx rpc s) = Some (NC_RPL_ERROR (e # es)))"
proof -
  obtain reply s' where run: "op_deleteconfig url_cap en ly_ctx rpc s = (reply, s')" by force
  have "reply = Some NC_RPL_OK \<or> (\<exists>e es. reply = Some (NC_RPL_ERROR (e # es)))"
    using run
  proof (cases rule: op_deleteconfig_cases)
    case (denied ty msg)
    then show ?thesis by simp
  next
    case (target_error e)
    then show ?thesis by simp
  next
    case (url u)
    from url(3) show ?thesis by (cases rule: delete_url_cases) auto
  next
    case datastore
    from datastore(3) show ?thesis
      by (cases rule: delete_datastore_cases) (auto dest: ereply_of_error)
  qed
  with run show ?thesis by auto
qed

theorem exactly_one_reply_witness:
  "fst (op_deleteconfig True env_second_delete_fails ctx_example rpc_startup state_example)
     \<noteq> Some NC_RPL_OK \<and>
   fst (op_deleteconfig True env_second_delete_fails ctx_example rpc_startup state_example)
     = Some (NC_RPL_ERROR [err_example])"
  using exactly_one_reply [of True env_second_delete_fails ctx_example rpc_startup state_example]
  by (simp add: run_defs example_defs)

text \<open>
  C9, frame of the URL path. In a build with the URL capability, a request whose target is
  \<open>url\<close> with a location string never reaches the datastore: the bound-store field, the
  connection's binding, the content of every datastore and the pending changes are left as
  they were, and no switch, refresh, delete, discard or commit is in the log. The run is
  one of three: the permission check fails; the import fails; or the import succeeds, the
  parsed document is freed at once, and the location is reinitialized, which is the only
  call that changes anything.
\<close>

theorem url_frame:
  assumes tag: "dsname rpc = ''url''" and url: "value_str rpc = Some u"
    and run: "op_deleteconfig True en ly_ctx rpc s = (reply, s')"
  shows "ds s' = ds s \<and> sr_ds s' = sr_ds s \<and> sr_content s' = sr_content s \<and>
         sr_pending s' = sr_pending s \<and>
         (\<forall>ev \<in> set (new_calls s s'). \<not> is_store_call (fst ev)) \<and>
         ((\<exists>r. r \<noteq> RC_OK \<and>
               new_calls s s' = [(Sr_check_exec_permission ''/ietf-netconf:delete-config'', r)]) \<or>
          (\<exists>r. r \<noteq> RC_OK \<and>
               new_calls s s' = [perm_ok, found_target, (Op_url_import u, r)]) \<or>
          (\<exists>doc r. env_url_import en (trace s @ [perm_ok, found_target]) u = (RC_OK, doc) \<and>
               new_calls s s' = [perm_ok, found_target, (Op_url_import u, RC_OK),
                                 (Lyd_free_withsiblings doc, RC_OK), (Op_url_init u, r)]))"
  using run
proof (cases rule: op_deleteconfig_cases)
  case (denied ty msg)
  then show ?thesis by (simp add: new_calls_def)
next
  case (target_error e)
  with tag url show ?thesis by (simp add: resolve_target_url)
next
  case (url v)
  with tag \<open>value_str rpc = Some u\<close> have v: "v = u" by (simp add: resolve_target_url)
  from url(3) show ?thesis
    by (cases rule: delete_url_cases)
       (auto simp: new_calls_def v perm_ok_def found_target_def)
next
  case datastore
  with tag url show ?thesis by (simp add: resolve_target_url)
qed

theorem url_frame_witness:
  "dsname rpc_url = ''url'' \<and> value_str rpc_url = Some ''file:///tmp/cfg.xml'' \<and>
   op_deleteconfig True env_all_ok ctx_example rpc_url state_example =
     (Some NC_RPL_OK,
      state_example\<lparr>trace := [perm_ok, found_target, (Op_url_import ''file:///tmp/cfg.xml'', RC_OK),
         (Lyd_free_withsiblings [(''m'', ''<a/>'')], RC_OK),
         (Op_url_init ''file:///tmp/cfg.xml'', RC_OK)]\<rparr>) \<and>
   sr_content (state_example\<lparr>trace := [perm_ok, found_target,
         (Op_url_import ''file:///tmp/cfg.xml'', RC_OK),
         (Lyd_free_withsiblings [(''m'', ''<a/>'')], RC_OK),
         (Op_url_init ''file:///tmp/cfg.xml'', RC_OK)]\<rparr>) = sr_content state_example"
  using url_frame [of rpc_url "''file:///tmp/cfg.xml''" env_all_ok ctx_example state_example
          "Some NC_RPL_OK"
          "state_example\<lparr>trace := [perm_ok, found_target,
             (Op_url_import ''file:///tmp/cfg.xml'', RC_OK),
             (Lyd_free_withsiblings [(''m'', ''<a/>'')], RC_OK),
             (Op_url_init ''file:///tmp/cfg.xml'', RC_OK)]\<rparr>"]
  by (simp add: run_defs example_defs perm_ok_def found_target_def)

text \<open>
  C7, store switcher. For a request with a built-in target whose permission check passed,
  the target is the startup datastore and the run is one of two. Either the bound-store
  field differs from the target, the switch is issued and fails: the handler returns the
  error of the switch, nothing follows the switch in the log, and the bound-store field is
  unchanged. Or the log continues with the switch, issued and successful exactly when the
  bound-store field differed from the target, then the refresh; the bound-store field is
  the target afterwards; a failed refresh ends the run with its error; and everything
  after the refresh is a delete, a discard or a commit, so the refresh precedes every
  delete and no switch is issued when the field already equals the target.
\<close>

theorem store_switcher:
  assumes tag: "dsname rpc \<noteq> ''url''"
    and perm: "env_exec_permission en (trace s) ''/ietf-netconf:delete-config'' = None"
    and run: "op_deleteconfig url_cap en ly_ctx rpc s = (reply, s')"
  shows "(\<exists>r. r \<noteq> RC_OK \<and> ds s \<noteq> SR_DS_STARTUP \<and>
              r = env_switch_ds en (trace s @ [perm_ok, found_target]) SR_DS_STARTUP \<and>
              new_calls s s' = [perm_ok, found_target, (Sr_session_switch_ds SR_DS_STARTUP, r)] \<and>
              reply = ereply_of r \<and> ds s' = ds s) \<or>
         (\<exists>r rest.
              new_calls s s' =
                [perm_ok, found_target] @
                (if ds s \<noteq> SR_DS_STARTUP then [(Sr_session_switch_ds SR_DS_STARTUP, RC_OK)] else []) @
                (Sr_session_refresh, r) # rest \<and>
              ds s' = SR_DS_STARTUP \<and>
              (r \<noteq> RC_OK \<longrightarrow> rest = [] \<and> reply = ereply_of r) \<and>
              (\<forall>ev \<in> set rest. is_erase_call (fst ev)))"
proof -
  define s2 where "s2 = s\<lparr>trace := trace s @ [perm_ok, found_target]\<rparr>"
  from run perm tag have dd: "delete_datastore en ly_ctx SR_DS_STARTUP s2 = (reply, s')"
    by (simp add: op_deleteconfig_permitted resolve_target_other s2_def)
  have s2: "trace s2 = trace s @ [perm_ok, found_target]" "ds s2 = ds s"
    by (simp_all add: s2_def)
  from dd show ?thesis
  proof (cases rule: delete_datastore_cases)
    case (switch_failed r)
    then have "new_calls s s' = [perm_ok, found_target, (Sr_session_switch_ds SR_DS_STARTUP, r)]"
      by (intro new_calls_append) (simp add: s2)
    with switch_failed s2 show ?thesis by auto
  next
    case (refresh_failed r)
    then have "new_calls s s' = [perm_ok, found_target] @
        (if ds s \<noteq> SR_DS_STARTUP then [(Sr_session_switch_ds SR_DS_STARTUP, RC_OK)] else []) @
        (Sr_session_refresh, r) # []"
      by (intro new_calls_append) (simp add: s2 switch_log_def)
    with refresh_failed show ?thesis by force
  next
    case (delete_failed r ps p qs)
    then have "new_calls s s' = [perm_ok, found_target] @
        (if ds s \<noteq> SR_DS_STARTUP then [(Sr_session_switch_ds SR_DS_STARTUP, RC_OK)] else []) @
        (Sr_session_refresh, RC_OK) #
          (deleted_ok ps @ [(Sr_delete_item p, r), (Sr_discard_changes, RC_OK)])"
      by (intro new_calls_append) (simp add: s2 switch_log_def)
    moreover have "\<forall>ev \<in> set (deleted_ok ps @ [(Sr_delete_item p, r), (Sr_discard_changes, RC_OK)]).
        is_erase_call (fst ev)"
      by (auto simp: deleted_ok_def)
    ultimately show ?thesis using delete_failed by blast
  next
    case (commit_failed r)
    then have "new_calls s s' = [perm_ok, found_target] @
        (if ds s \<noteq> SR_DS_STARTUP then [(Sr_session_switch_ds SR_DS_STARTUP, RC_OK)] else []) @
        (Sr_session_refresh, RC_OK) #
          (deleted_ok (delete_paths ly_ctx) @ [(Sr_commit, r), (Sr_discard_changes, RC_OK)])"
      by (intro new_calls_append) (simp add: s2 switch_log_def)
    moreover have "\<forall>ev \<in> set (deleted_ok (delete_paths ly_ctx) @ [(Sr_commit, r), (Sr_discard_changes, RC_OK)]).
        is_erase_call (fst ev)"
      by (auto simp: deleted_ok_def)
    ultimately show ?thesis using commit_failed by blast
  next
    case committed
    then have "new_calls s s' = [perm_ok, found_target] @
        (if ds s \<noteq> SR_DS_STARTUP then [(Sr_session_switch_ds SR_DS_STARTUP, RC_OK)] else []) @
        (Sr_session_refresh, RC_OK) # (deleted_ok (delete_paths ly_ctx) @ [(Sr_commit, RC_OK)])"
      by (intro new_calls_append) (simp add: s2 switch_log_def)
    moreover have "\<forall>ev \<in> set (deleted_ok (delete_paths ly_ctx) @ [(Sr_commit, RC_OK)]).
        is_erase_call (fst ev)"
      by (auto simp: deleted_ok_def)
    ultimately show ?thesis using committed by blast
  qed
qed

theorem store_switcher_witness:
  "dsname rpc_startup \<noteq> ''url'' \<and>
   env_exec_permission env_switch_fails (trace state_example) ''/ietf-netconf:delete-config''
     = None \<and>
   op_deleteconfig True env_switch_fails ctx_example rpc_startup state_example =
     (Some (NC_RPL_ERROR [err_example]),
      state_example\<lparr>trace := [perm_ok, found_target,
         (Sr_session_switch_ds SR_DS_STARTUP, RC_ERR err_example [])]\<rparr>) \<and>
   ds state_example \<noteq> SR_DS_STARTUP \<and>
   new_calls state_example (state_example\<lparr>trace := [perm_ok, found_target,
         (Sr_session_switch_ds SR_DS_STARTUP, RC_ERR err_example [])]\<rparr>) =
     [perm_ok, found_target, (Sr_session_switch_ds SR_DS_STARTUP, RC_ERR err_example [])]"
  using store_switcher [of rpc_startup env_switch_fails state_example True ctx_example
          "Some (NC_RPL_ERROR [err_example])"
          "state_example\<lparr>trace := [perm_ok, found_target,
             (Sr_session_switch_ds SR_DS_STARTUP, RC_ERR err_example [])]\<rparr>"]
  by (simp add: run_defs example_defs perm_ok_def found_target_def new_calls_def)

text \<open>
  C10, default target. A request whose target is neither \<open>startup\<close> nor \<open>url\<close> does not
  fail at the target: the variable keeps its initial value 0, which is the startup
  datastore, and the handler behaves exactly as for a request whose target is \<open>startup\<close>:
  once the permission check has passed it runs the switch-refresh-delete-commit sequence
  on the startup datastore, and when no call fails it returns the acknowledgement with the
  session bound to startup after switching (if needed), refreshing, deleting every module
  with configuration and committing.
\<close>

theorem default_target_startup:
  assumes t1: "dsname rpc \<noteq> ''startup''" and t2: "dsname rpc \<noteq> ''url''"
  shows "resolve_target url_cap rpc = Inr (0, None) \<and> SR_DS_STARTUP = 0 \<and>
         op_deleteconfig url_cap en ly_ctx rpc s =
           op_deleteconfig url_cap en ly_ctx (rpc\<lparr>dsname := ''startup''\<rparr>) s \<and>
         (env_exec_permission en (trace s) ''/ietf-netconf:delete-config'' = None \<longrightarrow>
            op_deleteconfig url_cap en ly_ctx rpc s =
              delete_datastore en ly_ctx SR_DS_STARTUP
                (s\<lparr>trace := trace s @ [perm_ok, found_target]\<rparr>)) \<and>
         (env_exec_permission en (trace s) ''/ietf-netconf:delete-config'' = None \<and>
          (\<forall>h t. env_switch_ds en h t = RC_OK) \<and> (\<forall>h. env_refresh en h = RC_OK) \<and>
          (\<forall>h p. env_delete_item en h p = RC_OK) \<and> (\<forall>h. env_commit en h = RC_OK) \<longrightarrow>
            fst (op_deleteconfig url_cap en ly_ctx rpc s) = Some NC_RPL_OK \<and>
            ds (snd (op_deleteconfig url_cap en ly_ctx rpc s)) = SR_DS_STARTUP \<and>
            new_calls s (snd (op_deleteconfig url_cap en ly_ctx rpc s)) =
              [perm_ok, found_target] @
              (if ds s \<noteq> SR_DS_STARTUP then [(Sr_session_switch_ds SR_DS_STARTUP, RC_OK)] else []) @
              [(Sr_session_refresh, RC_OK)] @ deleted_ok (delete_paths ly_ctx) @
              [(Sr_commit, RC_OK)])"
proof (intro conjI impI)
  from t1 t2 show "resolve_target url_cap rpc = Inr (0, None)"
    by (simp add: resolve_target_def)
  show "SR_DS_STARTUP = 0" by (simp add: SR_DS_STARTUP_def)
  have same: "resolve_target url_cap rpc = resolve_target url_cap (rpc\<lparr>dsname := ''startup''\<rparr>)"
    using t1 t2 by (simp add: resolve_target_def SR_DS_STARTUP_def)
  show "op_deleteconfig url_cap en ly_ctx rpc s =
           op_deleteconfig url_cap en ly_ctx (rpc\<lparr>dsname := ''startup''\<rparr>) s"
    by (simp only: op_deleteconfig_def same)
next
  assume "env_exec_permission en (trace s) ''/ietf-netconf:delete-config'' = None"
  with t2 show "op_deleteconfig url_cap en ly_ctx rpc s =
              delete_datastore en ly_ctx SR_DS_STARTUP
                (s\<lparr>trace := trace s @ [perm_ok, found_target]\<rparr>)"
    by (simp add: op_deleteconfig_permitted resolve_target_other)
next
  assume ok: "env_exec_permission en (trace s) ''/ietf-netconf:delete-config'' = None \<and>
          (\<forall>h t. env_switch_ds en h t = RC_OK) \<and> (\<forall>h. env_refresh en h = RC_OK) \<and>
          (\<forall>h p. env_delete_item en h p = RC_OK) \<and> (\<forall>h. env_commit en h = RC_OK)"
  define s2 where "s2 = s\<lparr>trace := trace s @ [perm_ok, found_target]\<rparr>"
  obtain reply s' where dd: "delete_datastore en ly_ctx SR_DS_STARTUP s2 = (reply, s')" by force
  with ok t2 have run: "op_deleteconfig url_cap en ly_ctx rpc s = (reply, s')"
    by (simp add: op_deleteconfig_permitted resolve_target_other s2_def)
  from ok dd have res: "reply = Some NC_RPL_OK \<and> ds s' = SR_DS_STARTUP \<and>
         trace s' = trace s2 @ switch_log SR_DS_STARTUP s2 @ [(Sr_session_refresh, RC_OK)] @
                    deleted_ok (delete_paths ly_ctx) @ [(Sr_commit, RC_OK)]"
    by (intro delete_datastore_all_ok) auto
  then have "new_calls s s' = [perm_ok, found_target] @
              (if ds s \<noteq> SR_DS_STARTUP then [(Sr_session_switch_ds SR_DS_STARTUP, RC_OK)] else []) @
              [(Sr_session_refresh, RC_OK)] @ deleted_ok (delete_paths ly_ctx) @
              [(Sr_commit, RC_OK)]"
    by (intro new_calls_append) (simp add: s2_def switch_log_def)
  with res run show
    "fst (op_deleteconfig url_cap en ly_ctx rpc s) = Some NC_RPL_OK"
    "ds (snd (op_deleteconfig url_cap en ly_ctx rpc s)) = SR_DS_STARTUP"
    "new_calls s (snd (op_deleteconfig url_cap en ly_ctx rpc s)) =
              [perm_ok, found_target] @
              (if ds s \<noteq> SR_DS_STARTUP then [(Sr_session_switch_ds SR_DS_STARTUP, RC_OK)] else []) @
              [(Sr_session_refresh, RC_OK)] @ deleted_ok (delete_paths ly_ctx) @
              [(Sr_commit, RC_OK)]"
    by simp_all
qed

theorem default_target_startup_witness:
  "dsname rpc_running \<noteq> ''startup'' \<and> dsname rpc_running \<noteq> ''url'' \<and>
   resolve_target True rpc_running = Inr (0, None) \<and>
   op_deleteconfig True env_all_ok ctx_example rpc_running state_example =
     op_deleteconfig True env_all_ok ctx_example rpc_startup state_example \<and>
   fst (op_deleteconfig True env_all_ok ctx_example rpc_running state_example) = Some NC_RPL_OK \<and>
   trace (snd (op_deleteconfig True env_all_ok ctx_example rpc_running state_example)) =
     [perm_ok, found_target, (Sr_session_switch_ds SR_DS_STARTUP, RC_OK),
      (Sr_session_refresh, RC_OK), (Sr_delete_item ''/a:*'', RC_OK),
      (Sr_delete_item ''/c:*'', RC_OK), (Sr_commit, RC_OK)]"
  using default_target_startup [of rpc_running True env_all_ok ctx_example state_example]
  by (simp add: run_defs example_defs perm_ok_def found_target_def)









end
